theory Spec2Isabelle
  imports Complex_Main "HOL-Library.AList"
begin

section \<open>HomeKit light accessory: state attributes to characteristic values\<close>

text \<open>
  The accessory class \<^verbatim>\<open>Light\<close> (homeassistant/components/homekit/type_lights.py)
  is exercised by src/tests/components/homekit/test_type_lights.py. Platform numbers are
  Python ints or floats; both are rationals, and the model computes on \<^typ>\<open>rat\<close>
  exactly (the rounding error of one float division and one float multiplication is
  not modelled).
\<close>

text \<open>Python's \<^verbatim>\<open>round(x)\<close>: to the nearest integer, a tie to the even one.\<close>

definition py_round :: "rat \<Rightarrow> int" where
  "py_round x =
     (let f = \<lfloor>x\<rfloor>; d = x - of_int f
      in if d < 1 / 2 then f
         else if 1 / 2 < d then f + 1
         else if even f then f else f + 1)"

text \<open>Python's \<^verbatim>\<open>int(x)\<close> on a float: truncation towards zero.\<close>

definition py_int :: "rat \<Rightarrow> int" where
  "py_int x = (if 0 \<le> x then \<lfloor>x\<rfloor> else \<lceil>x\<rceil>)"

datatype entity_state = STATE_ON | STATE_OFF | STATE_UNKNOWN

text \<open>
  Modelled from the spec: the brightness branch of \<^verbatim>\<open>Light.async_update_state\<close>
  (type_lights.py is missing). The spec gives "reported percentage = round(b/255*100)"
  and "never 0 while device on"; \<^verbatim>\<open>test_light_brightness\<close> pins the value 1 for
  the brightness 0 and 0.0 of a light that is on.
\<close>

definition brightness_pct :: "entity_state \<Rightarrow> rat \<Rightarrow> int" where
  "brightness_pct state b =
     (let brightness = py_round (b / 255 * 100)
      in if brightness = 0 \<and> state = STATE_ON then 1 else brightness)"

text \<open>
  Modelled from the spec: the colour branch of \<^verbatim>\<open>Light.async_update_state\<close>
  (type_lights.py is missing): "Hue/saturation pass through unchanged as integers
  truncated from platform floats".
\<close>

definition hs_color_chars :: "rat \<times> rat \<Rightarrow> int \<times> int" where
  "hs_color_chars hs = (py_int (fst hs), py_int (snd hs))"

text \<open>\<^verbatim>\<open>str(n)\<close> of a Python int.\<close>

definition digit_char :: "nat \<Rightarrow> char" where
  "digit_char d = ''0123456789'' ! (d mod 10)"

function str_nat :: "nat \<Rightarrow> string" where
  "str_nat n = (if n < 10 then [digit_char n] else str_nat (n div 10) @ [digit_char n])"
  by pat_completeness auto
termination
  by (relation "measure id") auto

definition str_int :: "int \<Rightarrow> string" where
  "str_int i = (if i < 0 then CHR ''-'' # str_nat (nat (- i)) else str_nat (nat i))"

text \<open>\<^verbatim>\<open>", ".join(events)\<close>.\<close>

fun join_events :: "string list \<Rightarrow> string" where
  "join_events [] = []"
| "join_events [e] = e"
| "join_events (e # es) = e @ '', '' @ join_events es"

text \<open>
  A batch of characteristic writes from the accessory protocol, by characteristic
  (None: not in the batch).
\<close>

record char_values =
  CHAR_ON :: "int option"
  CHAR_BRIGHTNESS :: "int option"
  CHAR_COLOR_TEMPERATURE :: "int option"
  CHAR_HUE :: "int option"
  CHAR_SATURATION :: "int option"

datatype service = SERVICE_TURN_ON | SERVICE_TURN_OFF

text \<open>The service call: the service, its parameters and the text of the logged event.\<close>

record service_call =
  call_service :: service
  ATTR_BRIGHTNESS_PCT :: "int option"
  ATTR_COLOR_TEMP :: "int option"
  ATTR_HS_COLOR :: "(int \<times> int) option"
  ATTR_VALUE :: string

text \<open>
  Modelled from the spec: \<^verbatim>\<open>Light._set_chars\<close> (type_lights.py is missing), which
  "dispatches the appropriate domain service call (turn on/off, with
  brightness/color/temperature parameters) when the protocol layer reports a
  characteristic write". The services, parameters and event texts are those that
  test_type_lights.py asserts; a brightness of 0 selects turn_off and rewrites the last
  event to "Set state to 0".
\<close>

definition set_chars :: "char_values \<Rightarrow> service_call" where
  "set_chars cv =
     (let (service1, events1) =
            (case CHAR_ON cv of None \<Rightarrow> (SERVICE_TURN_ON, [])
             | Some v \<Rightarrow> (if v = 0 then SERVICE_TURN_OFF else SERVICE_TURN_ON,
                           [''Set state to '' @ str_int v]));
          (service2, pct, events2) =
            (case CHAR_BRIGHTNESS cv of None \<Rightarrow> (service1, None, events1)
             | Some b \<Rightarrow>
                 if b = 0
                 then (SERVICE_TURN_OFF, None,
                       butlast events1 @ [''Set state to 0'', ''brightness at 0%''])
                 else (service1, Some b, events1 @ [''brightness at '' @ str_int b @ ''%'']));
          (temp, events3) =
            (case CHAR_COLOR_TEMPERATURE cv of None \<Rightarrow> (None, events2)
             | Some t \<Rightarrow> (Some t, events2 @ [''color temperature at '' @ str_int t]));
          (color, events4) =
            (case (CHAR_HUE cv, CHAR_SATURATION cv) of
               (Some h, Some s) \<Rightarrow>
                 (Some (h, s),
                  events3 @ [''set color at ('' @ str_int h @ '', '' @ str_int s @ '')''])
             | _ \<Rightarrow> (None, events3))
      in \<lparr>call_service = service2, ATTR_BRIGHTNESS_PCT = pct, ATTR_COLOR_TEMP = temp,
          ATTR_HS_COLOR = color, ATTR_VALUE = join_events events4\<rparr>)"


section \<open>ESPHome config flow (src/homeassistant/components/esphome/config_flow.py)\<close>

subsection \<open>Python values\<close>

datatype pyval = PNone | PStr string | PInt int

text \<open>
  A dict with string keys, in insertion order. \<open>{**d, k: v}\<close> is \<open>AList.update k v d\<close>:
  a key that is present keeps its place, a new key goes to the end.
\<close>

type_synonym pydict = "(string \<times> pyval) list"

datatype py_error = AssertionError

text \<open>The keys of homeassistant.const that the flow uses.\<close>

definition CONF_HOST :: string where "CONF_HOST = ''host''"
definition CONF_NAME :: string where "CONF_NAME = ''name''"
definition CONF_PASSWORD :: string where "CONF_PASSWORD = ''password''"
definition CONF_PORT :: string where "CONF_PORT = ''port''"

text \<open>\<^verbatim>\<open>s[:-k]\<close> for \<open>k > 0\<close>: all but the last \<open>k\<close> characters, empty when \<open>s\<close> is shorter.\<close>

definition py_drop_last :: "nat \<Rightarrow> string \<Rightarrow> string" where
  "py_drop_last k s = take (length s - k) s"

text \<open>\<^verbatim>\<open>sub in s\<close> on strings.\<close>

fun starts_with :: "string \<Rightarrow> string \<Rightarrow> bool" where
  "starts_with [] s = True"
| "starts_with (c # cs) [] = False"
| "starts_with (c # cs) (d # ds) = (c = d \<and> starts_with cs ds)"

fun str_contains :: "string \<Rightarrow> string \<Rightarrow> bool" where
  "str_contains sub [] = (sub = [])"
| "str_contains sub (c # cs) = (starts_with sub (c # cs) \<or> str_contains sub cs)"

text \<open>\<^verbatim>\<open>x or ""\<close> on \<^verbatim>\<open>str | None\<close>.\<close>

definition str_or_empty :: "string option \<Rightarrow> string" where
  "str_or_empty x = (case x of None \<Rightarrow> [] | Some s \<Rightarrow> s)"

definition opt_str :: "string option \<Rightarrow> pyval" where
  "opt_str x = (case x of None \<Rightarrow> PNone | Some s \<Rightarrow> PStr s)"

definition opt_int :: "int option \<Rightarrow> pyval" where
  "opt_int x = (case x of None \<Rightarrow> PNone | Some i \<Rightarrow> PInt i)"

subsection \<open>The flow handler, the device and the results of a step\<close>

text \<open>
  \<^verbatim>\<open>EsphomeFlowHandler\<close>: its three attributes and the entries of \<^verbatim>\<open>self.context\<close>
  it reads or writes (\<^verbatim>\<open>context[CONF_NAME]\<close>, the \<^verbatim>\<open>"name"\<close> entry of
  \<^verbatim>\<open>context["title_placeholders"]\<close>, \<^verbatim>\<open>context["unique_id"]\<close>).
\<close>

record flow =
  flow_host :: "string option"
  flow_port :: "int option"
  flow_password :: "string option"
  context_name :: "string option"
  context_title_placeholders :: "(string \<times> string option) list"
  context_unique_id :: "string option"

definition init_flow :: flow where
  "init_flow = \<lparr>flow_host = None, flow_port = None, flow_password = None,
     context_name = None, context_title_placeholders = [], context_unique_id = None\<rparr>"

text \<open>\<^verbatim>\<open>aioesphomeapi.DeviceInfo\<close>, the two fields the flow reads.\<close>

record device_info =
  name :: string
  uses_password :: bool

text \<open>
  The device behind \<^verbatim>\<open>APIClient\<close>, a parameter of the model.
  \<open>api_device_info h p\<close> is \<^verbatim>\<open>connect()\<close> then \<^verbatim>\<open>device_info()\<close> at host \<open>h\<close>, port
  \<open>p\<close> with the empty password: \<open>Inl msg\<close> when either raises \<^verbatim>\<open>APIConnectionError\<close> with
  \<^verbatim>\<open>str(err) = msg\<close>. \<open>api_login h p pw\<close> tells whether \<^verbatim>\<open>connect(login=True)\<close> with
  password \<open>pw\<close> returns (False: it raises \<^verbatim>\<open>APIConnectionError\<close>).
\<close>

record api =
  api_device_info :: "string \<Rightarrow> int \<Rightarrow> string + device_info"
  api_login :: "string \<Rightarrow> int \<Rightarrow> string option \<Rightarrow> bool"

text \<open>A field of a voluptuous schema: its key and its default (None: \<^verbatim>\<open>vol.UNDEFINED\<close>).\<close>

datatype schema_field = Required string "pyval option" | Optional string "pyval option"

text \<open>
  \<^verbatim>\<open>FlowResult\<close>: what \<^verbatim>\<open>async_show_form\<close>, \<^verbatim>\<open>async_abort\<close> and
  \<^verbatim>\<open>async_create_entry\<close> return. A form has its step id, schema, errors and description
  placeholders (an argument that is not passed is the empty list).
\<close>

datatype flow_result =
    FORM string "schema_field list" "(string \<times> string) list" "(string \<times> string option) list"
  | ABORT string
  | CREATE_ENTRY string pydict

subsection \<open>The steps that talk to the device\<close>

text \<open>The \<^verbatim>\<open>_name\<close> setter.\<close>

definition set_name :: "flow \<Rightarrow> string \<Rightarrow> flow" where
  "set_name fl v =
     fl\<lparr>context_name := Some v, context_title_placeholders := [(''name'', Some v)]\<rparr>"

text \<open>
  The part of \<^verbatim>\<open>_async_step_user_base\<close> after the test of \<^verbatim>\<open>user_input\<close>: the form
  of the step "user" (what the call \<^verbatim>\<open>_async_step_user_base(error=error)\<close> returns). \<^verbatim>\<open>self._host or vol.UNDEFINED\<close> and \<^verbatim>\<open>self._port or 6053\<close> take the
  right operand for None, the empty string and 0.
\<close>

definition user_form :: "flow \<Rightarrow> string option \<Rightarrow> flow_result" where
  "user_form fl error =
     (let fields =
            [Required CONF_HOST
               (case flow_host fl of None \<Rightarrow> None
                | Some h \<Rightarrow> if h = [] then None else Some (PStr h)),
             Optional CONF_PORT
               (case flow_port fl of None \<Rightarrow> Some (PInt 6053)
                | Some p \<Rightarrow> if p = 0 then Some (PInt 6053) else Some (PInt p))];
          errors = (case error of None \<Rightarrow> [] | Some e \<Rightarrow> [(''base'', e)])
      in FORM ''user'' fields errors [])"

text \<open>
  \<^verbatim>\<open>_set_user_input\<close>. The user input of the step "user" has passed the schema of
  \<open>user_form\<close>, so it holds a host and a port.
\<close>

definition set_user_input :: "flow \<Rightarrow> (string \<times> int) option \<Rightarrow> flow" where
  "set_user_input fl user_input =
     (case user_input of None \<Rightarrow> fl
      | Some (h, p) \<Rightarrow> fl\<lparr>flow_host := Some h, flow_port := Some p\<rparr>)"

definition fetch_device_info ::
  "api \<Rightarrow> flow \<Rightarrow> py_error + (string option \<times> device_info option)" where
  "fetch_device_info cli fl =
     (case flow_host fl of None \<Rightarrow> Inl AssertionError
      | Some h \<Rightarrow>
     (case flow_port fl of None \<Rightarrow> Inl AssertionError
      | Some p \<Rightarrow>
     (case api_device_info cli h p of
        Inl err \<Rightarrow>
          if str_contains ''resolving'' err then Inr (Some ''resolve_error'', None)
          else Inr (Some ''connection_error'', None)
      | Inr info \<Rightarrow> Inr (None, Some info))))"

definition try_login :: "api \<Rightarrow> flow \<Rightarrow> py_error + string option" where
  "try_login cli fl =
     (case flow_host fl of None \<Rightarrow> Inl AssertionError
      | Some h \<Rightarrow>
     (case flow_port fl of None \<Rightarrow> Inl AssertionError
      | Some p \<Rightarrow>
          if api_login cli h p (flow_password fl) then Inr None
          else Inr (Some ''invalid_auth'')))"

definition async_get_entry :: "flow \<Rightarrow> py_error + flow_result" where
  "async_get_entry fl =
     (case context_name fl of None \<Rightarrow> Inl AssertionError
      | Some title \<Rightarrow>
          Inr (CREATE_ENTRY title
                 [(CONF_HOST, opt_str (flow_host fl)),
                  (CONF_PORT, opt_int (flow_port fl)),
                  (CONF_PASSWORD, PStr (str_or_empty (flow_password fl)))]))"

text \<open>
  The part of \<^verbatim>\<open>async_step_authenticate\<close> after the test of \<^verbatim>\<open>user_input\<close>: the
  form of the step "authenticate".
\<close>

definition authenticate_form :: "flow \<Rightarrow> string option \<Rightarrow> flow_result" where
  "authenticate_form fl error =
     (let errors = (case error of None \<Rightarrow> [] | Some e \<Rightarrow> [(''base'', e)])
      in FORM ''authenticate'' [Required ''password'' None] errors
           [(''name'', context_name fl)])"

text \<open>
  \<^verbatim>\<open>async_step_authenticate\<close>. The user input of this step has passed the schema of
  \<open>authenticate_form\<close>, so it holds a password. The call of itself with the error of
  \<open>try_login\<close> has no user input and shows the form.
\<close>

definition async_step_authenticate ::
  "api \<Rightarrow> flow \<Rightarrow> string option \<Rightarrow> string option \<Rightarrow> py_error + flow \<times> flow_result" where
  "async_step_authenticate cli fl user_input error =
     (case user_input of
        Some pw \<Rightarrow>
          (let fl' = fl\<lparr>flow_password := Some pw\<rparr>
           in case try_login cli fl' of
                Inl e \<Rightarrow> Inl e
              | Inr (Some err) \<Rightarrow>
                  if err \<noteq> [] then Inr (fl', authenticate_form fl' (Some err))
                  else map_sum id (Pair fl') (async_get_entry fl')
              | Inr None \<Rightarrow> map_sum id (Pair fl') (async_get_entry fl'))
      | None \<Rightarrow> Inr (fl, authenticate_form fl error))"

definition async_authenticate_or_add ::
  "api \<Rightarrow> flow \<Rightarrow> (string \<times> int) option \<Rightarrow> py_error + flow \<times> flow_result" where
  "async_authenticate_or_add cli fl user_input =
     (let fl1 = set_user_input fl user_input
      in case fetch_device_info cli fl1 of
           Inl e \<Rightarrow> Inl e
         | Inr (Some error, info) \<Rightarrow> Inr (fl1, user_form fl1 (Some error))
         | Inr (None, None) \<Rightarrow> Inl AssertionError
         | Inr (None, Some info) \<Rightarrow>
             (let fl2 = set_name fl1 (name info)
              in if uses_password info then async_step_authenticate cli fl2 None None
                 else map_sum id (Pair fl2) (async_get_entry fl2)))"

definition async_step_user_base ::
  "api \<Rightarrow> flow \<Rightarrow> (string \<times> int) option \<Rightarrow> string option \<Rightarrow> py_error + flow \<times> flow_result"
  where
  "async_step_user_base cli fl user_input error =
     (case user_input of
        Some ui \<Rightarrow> async_authenticate_or_add cli fl (Some ui)
      | None \<Rightarrow> Inr (fl, user_form fl error))"

definition async_step_user ::
  "api \<Rightarrow> flow \<Rightarrow> (string \<times> int) option \<Rightarrow> py_error + flow \<times> flow_result" where
  "async_step_user cli fl user_input = async_step_user_base cli fl user_input None"

text \<open>
  \<^verbatim>\<open>async_step_discovery_confirm\<close>. Only the presence of the user input is read;
  without one the step shows its form.
\<close>

definition discovery_confirm_form :: "flow \<Rightarrow> flow_result" where
  "discovery_confirm_form fl = FORM ''discovery_confirm'' [] [] [(''name'', context_name fl)]"

definition async_step_discovery_confirm ::
  "api \<Rightarrow> flow \<Rightarrow> unit option \<Rightarrow> py_error + flow \<times> flow_result" where
  "async_step_discovery_confirm cli fl user_input =
     (case user_input of
        Some u \<Rightarrow> async_authenticate_or_add cli fl None
      | None \<Rightarrow> Inr (fl, discovery_confirm_form fl))"


subsection \<open>Zeroconf discovery\<close>

text \<open>
  The discovery payload. \<^verbatim>\<open>async_step_zeroconf\<close> reads the keys "hostname", "host",
  "port" and "properties", which zeroconf always provides, and the optional property
  "address".
\<close>

record discovery_info =
  hostname :: string
  host :: string
  port :: int
  properties :: "(string \<times> string) list"

text \<open>\<^verbatim>\<open>ConfigEntry\<close>: the attributes the flow reads or updates.\<close>

record config_entry =
  entry_id :: string
  unique_id :: "string option"
  data :: pydict

text \<open>\<^verbatim>\<open>RuntimeEntryData\<close>, the one attribute the flow reads.\<close>

type_synonym runtime_entry_data = "device_info option"

text \<open>
  The part of \<^verbatim>\<open>hass\<close> the step works on: the config entries of the domain in the
  order \<^verbatim>\<open>_async_current_entries()\<close> yields them (for a zeroconf flow that is all of
  them), and the runtime data of the loaded entries by entry id.
\<close>

record hass =
  config_entries :: "config_entry list"
  entry_datas :: "(string \<times> runtime_entry_data) list"

text \<open>
  Modelled from the spec: \<^verbatim>\<open>DomainData.is_entry_loaded\<close> and
  \<^verbatim>\<open>DomainData.get_entry_data\<close> (esphome/__init__.py is missing), the lookup behind
  "matching ... by device name": an entry is loaded when it has runtime data.
\<close>

definition is_entry_loaded :: "hass \<Rightarrow> config_entry \<Rightarrow> bool" where
  "is_entry_loaded hs entry = (map_of (entry_datas hs) (entry_id entry) \<noteq> None)"

definition get_entry_data :: "hass \<Rightarrow> config_entry \<Rightarrow> runtime_entry_data" where
  "get_entry_data hs entry =
     (case map_of (entry_datas hs) (entry_id entry) of None \<Rightarrow> None | Some d \<Rightarrow> d)"

text \<open>
  Modelled from the spec: \<^verbatim>\<open>ConfigFlow.async_set_unique_id\<close> (config_entries.py is
  missing), which makes its argument the "stable device identifier" of the flow. No
  other flow is in progress.
\<close>

definition async_set_unique_id :: "flow \<Rightarrow> string \<Rightarrow> flow" where
  "async_set_unique_id fl uid = fl\<lparr>context_unique_id := Some uid\<rparr>"

text \<open>\<^verbatim>\<open>{**d, **updates}\<close>.\<close>

definition dict_merge :: "pydict \<Rightarrow> pydict \<Rightarrow> pydict" where
  "dict_merge d updates = fold (\<lambda>(k, v). AList.update k v) updates d"

text \<open>
  Modelled from the spec: \<^verbatim>\<open>ConfigFlow._abort_if_unique_id_configured(updates=...)\<close>
  (config_entries.py is missing). At the first entry that has the unique id of the flow
  it merges \<open>updates\<close> into the data of that entry and raises
  \<^verbatim>\<open>AbortFlow("already_configured")\<close>. The result is the entries and whether it raised.
\<close>

fun abort_if_unique_id_loop ::
  "string \<Rightarrow> pydict \<Rightarrow> config_entry list \<Rightarrow> config_entry list \<times> bool" where
  "abort_if_unique_id_loop uid updates [] = ([], False)"
| "abort_if_unique_id_loop uid updates (entry # rest) =
     (if unique_id entry = Some uid
      then (entry\<lparr>data := dict_merge (data entry) updates\<rparr> # rest, True)
      else (let (rest', raised) = abort_if_unique_id_loop uid updates rest
            in (entry # rest', raised)))"

definition abort_if_unique_id_configured :: "hass \<Rightarrow> flow \<Rightarrow> pydict \<Rightarrow> hass \<times> bool" where
  "abort_if_unique_id_configured hs fl updates =
     (case context_unique_id fl of None \<Rightarrow> (hs, False)
      | Some uid \<Rightarrow>
          (let (entries, raised) = abort_if_unique_id_loop uid updates (config_entries hs)
           in (hs\<lparr>config_entries := entries\<rparr>, raised)))"

text \<open>
  Modelled from the spec: \<^verbatim>\<open>ConfigEntries.async_update_entry(entry, data=..., unique_id=...)\<close>
  (config_entries.py is missing), the "identifier backfill": it stores both on the entry.
\<close>

definition async_update_entry :: "config_entry \<Rightarrow> pydict \<Rightarrow> string \<Rightarrow> config_entry" where
  "async_update_entry entry d uid = entry\<lparr>data := d, unique_id := Some uid\<rparr>"

text \<open>
  The test \<^verbatim>\<open>already_configured\<close> of one entry in the loop of
  \<^verbatim>\<open>async_step_zeroconf\<close>.
\<close>

definition already_configured ::
  "hass \<Rightarrow> discovery_info \<Rightarrow> string \<Rightarrow> string \<Rightarrow> config_entry \<Rightarrow> bool" where
  "already_configured hs info addr node entry =
     (if (case map_of (data entry) CONF_HOST of None \<Rightarrow> False
          | Some v \<Rightarrow> v \<in> set [PStr addr, PStr (host info)])
      then True
      else if is_entry_loaded hs entry
      then (case get_entry_data hs entry of None \<Rightarrow> False
            | Some dev \<Rightarrow> name dev = node)
      else False)"

text \<open>\<^verbatim>\<open>not entry.unique_id\<close>: None or the empty string.\<close>

definition no_unique_id :: "config_entry \<Rightarrow> bool" where
  "no_unique_id entry = (case unique_id entry of None \<Rightarrow> True | Some u \<Rightarrow> u = [])"

text \<open>
  The loop of \<^verbatim>\<open>async_step_zeroconf\<close> over the current entries. The result is the
  entries and whether the loop returned \<^verbatim>\<open>async_abort(reason="already_configured")\<close>.
\<close>

fun current_entries_loop ::
  "hass \<Rightarrow> discovery_info \<Rightarrow> string \<Rightarrow> string \<Rightarrow> config_entry list
     \<Rightarrow> config_entry list \<times> bool" where
  "current_entries_loop hs info addr node [] = ([], False)"
| "current_entries_loop hs info addr node (entry # rest) =
     (if already_configured hs info addr node entry
      then ((if no_unique_id entry
             then async_update_entry entry
                    (AList.update CONF_HOST (PStr (host info)) (data entry)) node
             else entry) # rest, True)
      else (let (rest', aborted) = current_entries_loop hs info addr node rest
            in (entry # rest', aborted)))"

text \<open>
  The first three locals of \<^verbatim>\<open>async_step_zeroconf\<close>:
  \<^verbatim>\<open>discovery_info["hostname"][:-1]\<close>, \<^verbatim>\<open>local_name[: -len(".local")]\<close> and
  \<^verbatim>\<open>discovery_info["properties"].get("address", local_name)\<close>.
\<close>

definition local_name :: "discovery_info \<Rightarrow> string" where
  "local_name info = py_drop_last 1 (hostname info)"

definition node_name :: "discovery_info \<Rightarrow> string" where
  "node_name info = py_drop_last (length ''.local'') (local_name info)"

definition address :: "discovery_info \<Rightarrow> string" where
  "address info =
     (case map_of (properties info) ''address'' of None \<Rightarrow> local_name info | Some a \<Rightarrow> a)"

text \<open>
  \<^verbatim>\<open>async_step_zeroconf\<close>. The flow manager turns the \<^verbatim>\<open>AbortFlow\<close> of
  \<^verbatim>\<open>_abort_if_unique_id_configured\<close> into the abort result with its reason.
\<close>

definition async_step_zeroconf ::
  "hass \<Rightarrow> flow \<Rightarrow> discovery_info \<Rightarrow> hass \<times> flow \<times> flow_result" where
  "async_step_zeroconf hs fl info =
     (let fl1 = async_set_unique_id fl (node_name info);
          (hs1, raised) = abort_if_unique_id_configured hs fl1 [(CONF_HOST, PStr (host info))]
      in if raised then (hs1, fl1, ABORT ''already_configured'')
         else
           (let (entries, aborted) =
                  current_entries_loop hs1 info (address info) (node_name info)
                    (config_entries hs1)
            in if aborted
               then (hs1\<lparr>config_entries := entries\<rparr>, fl1, ABORT ''already_configured'')
               else
                 (let fl2 = fl1\<lparr>flow_host := Some (host info), flow_port := Some (port info)\<rparr>;
                      fl3 = set_name fl2 (node_name info)
                  in (hs1, fl3, discovery_confirm_form fl3))))"

subsection \<open>An example network\<close>

text \<open>
  Two devices, one of them with the password "secret", a name that does not resolve and
  hosts that refuse the connection.
\<close>

definition example_device :: api where
  "example_device =
     \<lparr>api_device_info =
        (\<lambda>h p. if h = ''livingroom.local''
               then Inr \<lparr>name = ''livingroom'', uses_password = True\<rparr>
               else if h = ''kitchen.local''
               then Inr \<lparr>name = ''kitchen'', uses_password = False\<rparr>
               else if h = ''nohost.local'' then Inl ''Error resolving IP address''
               else Inl ''Error connecting''),
      api_login = (\<lambda>h p pw. pw = Some ''secret'')\<rparr>"

section \<open>Python rounding\<close>

lemma py_round_of_int: "py_round (of_int n) = n"
  by (simp add: py_round_def)

lemma py_round_ge: "of_int n \<le> x \<Longrightarrow> n \<le> py_round x"
proof -
  assume "of_int n \<le> x"
  then have "n \<le> \<lfloor>x\<rfloor>" by (simp add: le_floor_iff)
  then show ?thesis by (simp add: py_round_def Let_def)
qed

lemma py_round_le: "x \<le> of_int n \<Longrightarrow> py_round x \<le> n"
proof (cases "x = of_int n")
  case True
  then show ?thesis by (simp add: py_round_of_int)
next
  case False
  assume "x \<le> of_int n"
  with False have "x < of_int n" by simp
  then have "\<lfloor>x\<rfloor> < n" by (simp add: floor_less_iff)
  then show ?thesis by (simp add: py_round_def Let_def)
qed

lemma brightness_scaled_range:
  fixes b :: rat
  assumes "0 \<le> b" and "b \<le> 255"
  shows "of_int 0 \<le> b / 255 * 100" and "b / 255 * 100 \<le> of_int 100"
  using assms by simp_all

section \<open>Brightness percentage\<close>

text \<open>
  The values \<^verbatim>\<open>test_light_brightness\<close> and its siblings assert for a light that is
  on: 255, 102, 127, 0, 55.66, 108.4 and 0.0.
\<close>

lemma brightness_pct_test_values:
  "brightness_pct STATE_ON 255 = 100"
  "brightness_pct STATE_ON 102 = 40"
  "brightness_pct STATE_ON 127 = 50"
  "brightness_pct STATE_ON 0 = 1"
  "brightness_pct STATE_ON (5566 / 100) = 22"
  "brightness_pct STATE_ON (1084 / 10) = 43"
  by code_simp+

text \<open>
  C1. For a brightness \<open>b\<close> in [0, 255] of a light that is on, the percentage on the
  brightness characteristic is \<open>round (b / 255 * 100)\<close> with a result of 0 raised to 1:
  it is never 0 and lies in 1..100, for integer and fractional \<open>b\<close> and for \<open>b = 0\<close>.
\<close>

theorem brightness_pct_on:
  assumes "0 \<le> b" and "b \<le> 255"
  shows "brightness_pct STATE_ON b =
           (if py_round (b / 255 * 100) = 0 then 1 else py_round (b / 255 * 100))
         \<and> brightness_pct STATE_ON b \<noteq> 0
         \<and> 1 \<le> brightness_pct STATE_ON b \<and> brightness_pct STATE_ON b \<le> 100"
proof -
  let ?r = "py_round (b / 255 * 100)"
  have lo: "0 \<le> ?r"
    using py_round_ge [OF brightness_scaled_range(1) [OF assms]] .
  have hi: "?r \<le> 100"
    using py_round_le [OF brightness_scaled_range(2) [OF assms]] .
  have eq: "brightness_pct STATE_ON b = (if ?r = 0 then 1 else ?r)"
    by (simp add: brightness_pct_def Let_def)
  from lo hi eq show ?thesis by auto
qed

theorem brightness_pct_on_witness:
  "(0::rat) \<le> 1 \<and> (1::rat) \<le> 255 \<and> py_round (1 / 255 * 100) = 0
   \<and> brightness_pct STATE_ON 1 = 1 \<and> brightness_pct STATE_ON 0 = 1"
proof -
  have r: "py_round (1 / 255 * 100) = 0"
    by code_simp
  have z: "brightness_pct STATE_ON 0 = 1"
    by code_simp
  from brightness_pct_on [of 1] r z show ?thesis by simp
qed

section \<open>Hue and saturation\<close>

lemma py_int_of_int: "py_int (of_int n) = n"
  by (simp add: py_int_def)

lemma py_int_close: "\<bar>of_int (py_int x) - x\<bar> < 1"
  unfolding py_int_def by (simp; linarith)

lemma py_int_towards_zero: "\<bar>rat_of_int (py_int x)\<bar> \<le> \<bar>x\<bar>"
  unfolding py_int_def by (simp; linarith)

text \<open>
  C7. The hue and saturation characteristics are the two platform floats truncated to
  integers, each on its own and with no scaling: integer values pass through unchanged,
  (4.5, 9.2) becomes (4, 9), and each result is within 1 of its input, towards zero.
  \<^verbatim>\<open>test_light_set_brightness_and_color\<close> asserts (4, 9) for (4.5, 9.2), a pair on
  which truncation and rounding agree.
\<close>

theorem hs_color_chars_truncates:
  "hs_color_chars (h, s) = (py_int h, py_int s)
   \<and> hs_color_chars (rat_of_int i, rat_of_int j) = (i, j)
   \<and> hs_color_chars (45 / 10, 92 / 10) = (4, 9)
   \<and> \<bar>rat_of_int (fst (hs_color_chars (h, s))) - h\<bar> < 1
   \<and> \<bar>rat_of_int (snd (hs_color_chars (h, s))) - s\<bar> < 1
   \<and> \<bar>rat_of_int (fst (hs_color_chars (h, s)))\<bar> \<le> \<bar>h\<bar>
   \<and> \<bar>rat_of_int (snd (hs_color_chars (h, s)))\<bar> \<le> \<bar>s\<bar>"
proof -
  have t: "hs_color_chars (45 / 10, 92 / 10) = (4, 9)"
    by code_simp
  show ?thesis
    using t py_int_close [of h] py_int_close [of s] py_int_towards_zero [of h] py_int_towards_zero [of s]
    by (simp add: hs_color_chars_def py_int_of_int)
qed

section \<open>Characteristic writes\<close>

text \<open>The batches of test_type_lights.py with the calls and events it asserts.\<close>

lemma set_chars_test_values:
  "set_chars \<lparr>CHAR_ON = Some 1, CHAR_BRIGHTNESS = None, CHAR_COLOR_TEMPERATURE = None,
       CHAR_HUE = None, CHAR_SATURATION = None\<rparr>
   = \<lparr>call_service = SERVICE_TURN_ON, ATTR_BRIGHTNESS_PCT = None, ATTR_COLOR_TEMP = None,
       ATTR_HS_COLOR = None, ATTR_VALUE = ''Set state to 1''\<rparr>"
  "set_chars \<lparr>CHAR_ON = Some 0, CHAR_BRIGHTNESS = None, CHAR_COLOR_TEMPERATURE = None,
       CHAR_HUE = None, CHAR_SATURATION = None\<rparr>
   = \<lparr>call_service = SERVICE_TURN_OFF, ATTR_BRIGHTNESS_PCT = None, ATTR_COLOR_TEMP = None,
       ATTR_HS_COLOR = None, ATTR_VALUE = ''Set state to 0''\<rparr>"
  "set_chars \<lparr>CHAR_ON = Some 1, CHAR_BRIGHTNESS = Some 20, CHAR_COLOR_TEMPERATURE = None,
       CHAR_HUE = None, CHAR_SATURATION = None\<rparr>
   = \<lparr>call_service = SERVICE_TURN_ON, ATTR_BRIGHTNESS_PCT = Some 20, ATTR_COLOR_TEMP = None,
       ATTR_HS_COLOR = None, ATTR_VALUE = ''Set state to 1, brightness at 20%''\<rparr>"
  "set_chars \<lparr>CHAR_ON = Some 1, CHAR_BRIGHTNESS = Some 0, CHAR_COLOR_TEMPERATURE = None,
       CHAR_HUE = None, CHAR_SATURATION = None\<rparr>
   = \<lparr>call_service = SERVICE_TURN_OFF, ATTR_BRIGHTNESS_PCT = None, ATTR_COLOR_TEMP = None,
       ATTR_HS_COLOR = None, ATTR_VALUE = ''Set state to 0, brightness at 0%''\<rparr>"
  "set_chars \<lparr>CHAR_ON = None, CHAR_BRIGHTNESS = None, CHAR_COLOR_TEMPERATURE = Some 250,
       CHAR_HUE = None, CHAR_SATURATION = None\<rparr>
   = \<lparr>call_service = SERVICE_TURN_ON, ATTR_BRIGHTNESS_PCT = None, ATTR_COLOR_TEMP = Some 250,
       ATTR_HS_COLOR = None, ATTR_VALUE = ''color temperature at 250''\<rparr>"
  "set_chars \<lparr>CHAR_ON = None, CHAR_BRIGHTNESS = None, CHAR_COLOR_TEMPERATURE = None,
       CHAR_HUE = Some 145, CHAR_SATURATION = Some 75\<rparr>
   = \<lparr>call_service = SERVICE_TURN_ON, ATTR_BRIGHTNESS_PCT = None, ATTR_COLOR_TEMP = None,
       ATTR_HS_COLOR = Some (145, 75), ATTR_VALUE = ''set color at (145, 75)''\<rparr>"
  "set_chars \<lparr>CHAR_ON = Some 1, CHAR_BRIGHTNESS = Some 20, CHAR_COLOR_TEMPERATURE = None,
       CHAR_HUE = Some 145, CHAR_SATURATION = Some 75\<rparr>
   = \<lparr>call_service = SERVICE_TURN_ON, ATTR_BRIGHTNESS_PCT = Some 20, ATTR_COLOR_TEMP = None,
       ATTR_HS_COLOR = Some (145, 75),
       ATTR_VALUE = ''Set state to 1, brightness at 20%, set color at (145, 75)''\<rparr>"
  "set_chars \<lparr>CHAR_ON = Some 1, CHAR_BRIGHTNESS = Some 20, CHAR_COLOR_TEMPERATURE = Some 250,
       CHAR_HUE = None, CHAR_SATURATION = None\<rparr>
   = \<lparr>call_service = SERVICE_TURN_ON, ATTR_BRIGHTNESS_PCT = Some 20, ATTR_COLOR_TEMP = Some 250,
       ATTR_HS_COLOR = None,
       ATTR_VALUE = ''Set state to 1, brightness at 20%, color temperature at 250''\<rparr>"
  by code_simp+

lemma set_chars_service:
  "call_service (set_chars cv) =
     (if CHAR_BRIGHTNESS cv = Some 0 \<or> CHAR_ON cv = Some 0 then SERVICE_TURN_OFF
      else SERVICE_TURN_ON)"
  by (simp add: set_chars_def split: option.splits prod.splits)

lemma set_chars_pct:
  "ATTR_BRIGHTNESS_PCT (set_chars cv) =
     (if CHAR_BRIGHTNESS cv = Some 0 then None else CHAR_BRIGHTNESS cv)"
  by (simp add: set_chars_def split: option.splits prod.splits)

text \<open>
  C10. A batch that writes the brightness 0 dispatches turn_off, without a brightness
  parameter, whatever else it writes; so does the batch on = 1 with brightness = 0, which
  logs "Set state to 0, brightness at 0%".
\<close>

theorem set_chars_brightness_zero_turns_off:
  "call_service (set_chars (cv\<lparr>CHAR_BRIGHTNESS := Some 0\<rparr>)) = SERVICE_TURN_OFF
   \<and> ATTR_BRIGHTNESS_PCT (set_chars (cv\<lparr>CHAR_BRIGHTNESS := Some 0\<rparr>)) = None
   \<and> call_service (set_chars (cv\<lparr>CHAR_ON := Some 1, CHAR_BRIGHTNESS := Some 0\<rparr>))
       = SERVICE_TURN_OFF
   \<and> ATTR_BRIGHTNESS_PCT (set_chars (cv\<lparr>CHAR_ON := Some 1, CHAR_BRIGHTNESS := Some 0\<rparr>))
       = None
   \<and> set_chars \<lparr>CHAR_ON = Some 1, CHAR_BRIGHTNESS = Some 0, CHAR_COLOR_TEMPERATURE = None,
        CHAR_HUE = None, CHAR_SATURATION = None\<rparr>
      = \<lparr>call_service = SERVICE_TURN_OFF, ATTR_BRIGHTNESS_PCT = None, ATTR_COLOR_TEMP = None,
         ATTR_HS_COLOR = None, ATTR_VALUE = ''Set state to 0, brightness at 0%''\<rparr>"
proof -
  have batch: "set_chars \<lparr>CHAR_ON = Some 1, CHAR_BRIGHTNESS = Some 0,
        CHAR_COLOR_TEMPERATURE = None, CHAR_HUE = None, CHAR_SATURATION = None\<rparr>
      = \<lparr>call_service = SERVICE_TURN_OFF, ATTR_BRIGHTNESS_PCT = None, ATTR_COLOR_TEMP = None,
         ATTR_HS_COLOR = None, ATTR_VALUE = ''Set state to 0, brightness at 0%''\<rparr>"
    by code_simp
  show ?thesis
    by (simp add: set_chars_service set_chars_pct batch)
qed

section \<open>Strings\<close>

lemma starts_with_iff: "starts_with sub s = (\<exists>post. s = sub @ post)"
  by (induction sub s rule: starts_with.induct) auto

lemma str_contains_iff: "str_contains sub s = (\<exists>pre post. s = pre @ sub @ post)"
proof (induction s)
  case Nil
  then show ?case by auto
next
  case (Cons c cs)
  note IH = Cons.IH
  show ?case
  proof
    assume "str_contains sub (c # cs)"
    then consider "starts_with sub (c # cs)" | "str_contains sub cs" by auto
    then show "\<exists>pre post. c # cs = pre @ sub @ post"
    proof cases
      case 1
      then obtain post where "c # cs = sub @ post" by (auto simp: starts_with_iff)
      then have "c # cs = [] @ sub @ post" by simp
      then show ?thesis by blast
    next
      case 2
      then obtain pre post where "cs = pre @ sub @ post" using IH by auto
      then have "c # cs = (c # pre) @ sub @ post" by simp
      then show ?thesis by blast
    qed
  next
    assume "\<exists>pre post. c # cs = pre @ sub @ post"
    then obtain pre post where e: "c # cs = pre @ sub @ post" by blast
    show "str_contains sub (c # cs)"
    proof (cases pre)
      case Nil
      with e have "starts_with sub (c # cs)" by (auto simp: starts_with_iff)
      then show ?thesis by simp
    next
      case (Cons p ps)
      with e have "cs = ps @ sub @ post" by simp
      then have "str_contains sub cs" using IH by blast
      then show ?thesis by simp
    qed
  qed
qed

section \<open>Fetching the device info and logging in\<close>

lemmas conf_defs = CONF_HOST_def CONF_NAME_def CONF_PASSWORD_def CONF_PORT_def

lemma fetch_device_info_error:
  assumes "flow_host fl = Some h" and "flow_port fl = Some p"
    and "api_device_info cli h p = Inl msg"
  shows "fetch_device_info cli fl =
           Inr (Some (if str_contains ''resolving'' msg then ''resolve_error''
                      else ''connection_error''), None)"
  using assms by (simp add: fetch_device_info_def)

lemma fetch_device_info_ok:
  assumes "flow_host fl = Some h" and "flow_port fl = Some p"
    and "api_device_info cli h p = Inr info"
  shows "fetch_device_info cli fl = Inr (None, Some info)"
  using assms by (simp add: fetch_device_info_def)

lemma authenticate_or_add_error:
  assumes "flow_host (set_user_input fl ui) = Some h"
    and "flow_port (set_user_input fl ui) = Some p"
    and "api_device_info cli h p = Inl msg"
  shows "async_authenticate_or_add cli fl ui =
           Inr (set_user_input fl ui,
                user_form (set_user_input fl ui)
                  (Some (if str_contains ''resolving'' msg then ''resolve_error''
                         else ''connection_error'')))"
  using fetch_device_info_error [OF assms]
  by (simp add: async_authenticate_or_add_def Let_def)

text \<open>
  C5. When the fetch of the device info raises \<^verbatim>\<open>APIConnectionError\<close>, the error is
  "resolve_error" if the message contains "resolving" and "connection_error" otherwise,
  and the step returns the form of the step "user" with that error under "base": from
  the step "user" with the host and port just entered, and from the confirmation of a
  discovery with the host and port of the flow.
\<close>

theorem connection_failure_reshows_user_form:
  assumes "api_device_info cli h p = Inl msg"
  shows "async_step_user cli fl (Some (h, p)) =
           Inr (fl\<lparr>flow_host := Some h, flow_port := Some p\<rparr>,
                FORM ''user''
                  [Required ''host'' (if h = [] then None else Some (PStr h)),
                   Optional ''port'' (Some (PInt (if p = 0 then 6053 else p)))]
                  [(''base'', if str_contains ''resolving'' msg then ''resolve_error''
                             else ''connection_error'')] [])
         \<and> (flow_host fl = Some h \<and> flow_port fl = Some p \<longrightarrow>
              async_step_discovery_confirm cli fl (Some ()) =
                Inr (fl,
                     FORM ''user''
                       [Required ''host'' (if h = [] then None else Some (PStr h)),
                        Optional ''port'' (Some (PInt (if p = 0 then 6053 else p)))]
                       [(''base'', if str_contains ''resolving'' msg then ''resolve_error''
                                  else ''connection_error'')] []))"
proof -
  let ?fl = "fl\<lparr>flow_host := Some h, flow_port := Some p\<rparr>"
  have s: "set_user_input fl (Some (h, p)) = ?fl"
    by (simp add: set_user_input_def)
  have a: "async_authenticate_or_add cli fl (Some (h, p)) = Inr (?fl, user_form ?fl
             (Some (if str_contains ''resolving'' msg then ''resolve_error''
                         else ''connection_error'')))"
    using authenticate_or_add_error [of fl "Some (h, p)" h p cli msg] assms
    by (simp add: s)
  have u: "async_step_user cli fl (Some (h, p)) = async_authenticate_or_add cli fl (Some (h, p))"
    by (simp add: async_step_user_def async_step_user_base_def)
  have first: "async_step_user cli fl (Some (h, p)) =
           Inr (?fl,
                FORM ''user''
                  [Required ''host'' (if h = [] then None else Some (PStr h)),
                   Optional ''port'' (Some (PInt (if p = 0 then 6053 else p)))]
                  [(''base'', if str_contains ''resolving'' msg then ''resolve_error''
                             else ''connection_error'')] [])"
    unfolding u a by (simp add: user_form_def conf_defs)
  have second: "async_step_discovery_confirm cli fl (Some ()) =
                Inr (fl,
                     FORM ''user''
                       [Required ''host'' (if h = [] then None else Some (PStr h)),
                        Optional ''port'' (Some (PInt (if p = 0 then 6053 else p)))]
                       [(''base'', if str_contains ''resolving'' msg then ''resolve_error''
                                  else ''connection_error'')] [])"
    if "flow_host fl = Some h" and "flow_port fl = Some p"
  proof -
    have n: "set_user_input fl None = fl"
      by (simp add: set_user_input_def)
    have "async_authenticate_or_add cli fl None = Inr (fl, user_form fl
             (Some (if str_contains ''resolving'' msg then ''resolve_error''
                         else ''connection_error'')))"
      using authenticate_or_add_error [of fl None h p cli msg] assms that
      by (simp add: n)
    then show ?thesis
      using that by (simp add: async_step_discovery_confirm_def user_form_def conf_defs)
  qed
  from first second show ?thesis by blast
qed

theorem connection_failure_witness:
  "async_step_user example_device
     \<lparr>flow_host = Some ''nohost.local'', flow_port = Some 6053, flow_password = None,
        context_name = None, context_title_placeholders = [], context_unique_id = None\<rparr>
     (Some (''nohost.local'', 6053)) =
   Inr (\<lparr>flow_host = Some ''nohost.local'', flow_port = Some 6053, flow_password = None,
          context_name = None, context_title_placeholders = [], context_unique_id = None\<rparr>,
        FORM ''user''
          [Required ''host'' (Some (PStr ''nohost.local'')), Optional ''port'' (Some (PInt 6053))]
          [(''base'', ''resolve_error'')] [])
   \<and> async_step_discovery_confirm example_device
     \<lparr>flow_host = Some ''nohost.local'', flow_port = Some 6053, flow_password = None,
        context_name = None, context_title_placeholders = [], context_unique_id = None\<rparr>
     (Some ()) =
   Inr (\<lparr>flow_host = Some ''nohost.local'', flow_port = Some 6053, flow_password = None,
          context_name = None, context_title_placeholders = [], context_unique_id = None\<rparr>,
        FORM ''user''
          [Required ''host'' (Some (PStr ''nohost.local'')), Optional ''port'' (Some (PInt 6053))]
          [(''base'', ''resolve_error'')] [])
   \<and> async_step_user example_device init_flow (Some (''10.0.0.9'', 6053)) =
   Inr (\<lparr>flow_host = Some ''10.0.0.9'', flow_port = Some 6053, flow_password = None,
          context_name = None, context_title_placeholders = [], context_unique_id = None\<rparr>,
        FORM ''user''
          [Required ''host'' (Some (PStr ''10.0.0.9'')), Optional ''port'' (Some (PInt 6053))]
          [(''base'', ''connection_error'')] [])"
  using connection_failure_reshows_user_form [of example_device "''nohost.local''" 6053
          "''Error resolving IP address''"
          "\<lparr>flow_host = Some ''nohost.local'', flow_port = Some 6053, flow_password = None,
             context_name = None, context_title_placeholders = [], context_unique_id = None\<rparr>"]
        connection_failure_reshows_user_form [of example_device "''10.0.0.9''" 6053
          "''Error connecting''" init_flow]
  by (simp add: example_device_def init_flow_def)

lemma try_login_result:
  assumes "flow_host fl = Some h" and "flow_port fl = Some p"
  shows "try_login cli fl =
           Inr (if api_login cli h p (flow_password fl) then None else Some ''invalid_auth'')"
  using assms by (simp add: try_login_def)

lemma async_get_entry_result:
  assumes "context_name fl = Some n"
  shows "async_get_entry fl =
           Inr (CREATE_ENTRY n
                  [(''host'', opt_str (flow_host fl)), (''port'', opt_int (flow_port fl)),
                   (''password'', PStr (str_or_empty (flow_password fl)))])"
  using assms by (simp add: async_get_entry_def conf_defs)

lemma step_authenticate_password:
  assumes "flow_host fl = Some h" and "flow_port fl = Some p" and "context_name fl = Some n"
  shows "async_step_authenticate cli fl (Some pw) err =
           Inr (fl\<lparr>flow_password := Some pw\<rparr>,
                if api_login cli h p (Some pw)
                then CREATE_ENTRY n
                       [(''host'', PStr h), (''port'', PInt p), (''password'', PStr pw)]
                else FORM ''authenticate'' [Required ''password'' None]
                       [(''base'', ''invalid_auth'')] [(''name'', Some n)])"
proof -
  let ?fl = "fl\<lparr>flow_password := Some pw\<rparr>"
  have t: "try_login cli ?fl =
             Inr (if api_login cli h p (Some pw) then None else Some ''invalid_auth'')"
    using try_login_result [of ?fl h p cli] assms by simp
  have g: "async_get_entry ?fl =
             Inr (CREATE_ENTRY n
                    [(''host'', PStr h), (''port'', PInt p), (''password'', PStr pw)])"
    using async_get_entry_result [of ?fl n] assms
    by (simp add: opt_str_def opt_int_def str_or_empty_def)
  show ?thesis
    by (simp add: async_step_authenticate_def Let_def t g authenticate_form_def assms)
qed

text \<open>
  C4. When the fetch of the device info succeeds and the device uses a password,
  \<^verbatim>\<open>_async_authenticate_or_add\<close> returns the form of the step "authenticate". In that
  step, whatever password an earlier attempt left in the flow, a password whose login
  fails returns the form again with the error "invalid_auth", and a password whose login
  succeeds creates the entry with the host, the port and that password.
\<close>

theorem password_device_authenticates:
  assumes "flow_host (set_user_input fl ui) = Some h"
    and "flow_port (set_user_input fl ui) = Some p"
    and "api_device_info cli h p = Inr info"
    and "uses_password info"
  shows "async_authenticate_or_add cli fl ui =
           Inr (set_name (set_user_input fl ui) (name info),
                FORM ''authenticate'' [Required ''password'' None] []
                  [(''name'', Some (name info))])
         \<and> async_step_authenticate cli
              (set_name (set_user_input fl ui) (name info)\<lparr>flow_password := pw0\<rparr>)
              (Some pw) None =
           Inr (set_name (set_user_input fl ui) (name info)\<lparr>flow_password := Some pw\<rparr>,
                if api_login cli h p (Some pw)
                then CREATE_ENTRY (name info)
                       [(''host'', PStr h), (''port'', PInt p), (''password'', PStr pw)]
                else FORM ''authenticate'' [Required ''password'' None]
                       [(''base'', ''invalid_auth'')] [(''name'', Some (name info))])"
proof -
  let ?fl1 = "set_user_input fl ui"
  let ?fl2 = "set_name ?fl1 (name info)"
  have f: "fetch_device_info cli ?fl1 = Inr (None, Some info)"
    using assms(1-3) by (rule fetch_device_info_ok)
  have a: "async_authenticate_or_add cli fl ui = async_step_authenticate cli ?fl2 None None"
    using assms(4) by (simp add: async_authenticate_or_add_def Let_def f)
  have form: "async_step_authenticate cli ?fl2 None None =
                Inr (?fl2, FORM ''authenticate'' [Required ''password'' None] []
                             [(''name'', Some (name info))])"
    by (simp add: async_step_authenticate_def authenticate_form_def set_name_def)
  have "async_step_authenticate cli (?fl2\<lparr>flow_password := pw0\<rparr>) (Some pw) None =
           Inr (?fl2\<lparr>flow_password := pw0\<rparr>\<lparr>flow_password := Some pw\<rparr>,
                if api_login cli h p (Some pw)
                then CREATE_ENTRY (name info)
                       [(''host'', PStr h), (''port'', PInt p), (''password'', PStr pw)]
                else FORM ''authenticate'' [Required ''password'' None]
                       [(''base'', ''invalid_auth'')] [(''name'', Some (name info))])"
    using assms(1,2) by (intro step_authenticate_password) (simp_all add: set_name_def)
  then show ?thesis
    by (simp add: a form)
qed

theorem password_device_authenticates_witness:
  "async_authenticate_or_add example_device init_flow (Some (''livingroom.local'', 6053)) =
     Inr (\<lparr>flow_host = Some ''livingroom.local'', flow_port = Some 6053, flow_password = None,
            context_name = Some ''livingroom'',
            context_title_placeholders = [(''name'', Some ''livingroom'')],
            context_unique_id = None\<rparr>,
          FORM ''authenticate'' [Required ''password'' None] [] [(''name'', Some ''livingroom'')])
   \<and> async_step_authenticate example_device
        \<lparr>flow_host = Some ''livingroom.local'', flow_port = Some 6053, flow_password = None,
           context_name = Some ''livingroom'',
           context_title_placeholders = [(''name'', Some ''livingroom'')],
           context_unique_id = None\<rparr>
        (Some ''wrong'') None =
     Inr (\<lparr>flow_host = Some ''livingroom.local'', flow_port = Some 6053,
            flow_password = Some ''wrong'', context_name = Some ''livingroom'',
            context_title_placeholders = [(''name'', Some ''livingroom'')],
            context_unique_id = None\<rparr>,
          FORM ''authenticate'' [Required ''password'' None] [(''base'', ''invalid_auth'')]
            [(''name'', Some ''livingroom'')])
   \<and> async_step_authenticate example_device
        \<lparr>flow_host = Some ''livingroom.local'', flow_port = Some 6053,
           flow_password = Some ''wrong'', context_name = Some ''livingroom'',
           context_title_placeholders = [(''name'', Some ''livingroom'')],
           context_unique_id = None\<rparr>
        (Some ''secret'') None =
     Inr (\<lparr>flow_host = Some ''livingroom.local'', flow_port = Some 6053,
            flow_password = Some ''secret'', context_name = Some ''livingroom'',
            context_title_placeholders = [(''name'', Some ''livingroom'')],
            context_unique_id = None\<rparr>,
          CREATE_ENTRY ''livingroom''
            [(''host'', PStr ''livingroom.local''), (''port'', PInt 6053),
             (''password'', PStr ''secret'')])"
  using password_device_authenticates [of init_flow "Some (''livingroom.local'', 6053)"
          "''livingroom.local''" 6053 example_device
          "\<lparr>name = ''livingroom'', uses_password = True\<rparr>" None "''wrong''"]
        password_device_authenticates [of init_flow "Some (''livingroom.local'', 6053)"
          "''livingroom.local''" 6053 example_device
          "\<lparr>name = ''livingroom'', uses_password = True\<rparr>" "Some ''wrong''" "''secret''"]
  by (simp add: example_device_def init_flow_def set_user_input_def set_name_def)

section \<open>The created entry\<close>

lemma get_entry_fields:
  assumes "async_get_entry fl = Inr r"
  shows "\<exists>t. r = CREATE_ENTRY t
                  [(''host'', opt_str (flow_host fl)), (''port'', opt_int (flow_port fl)),
                   (''password'', PStr (str_or_empty (flow_password fl)))]"
  using assms by (auto simp: async_get_entry_def conf_defs split: option.splits)

lemma step_authenticate_entry:
  assumes "async_step_authenticate cli fl upw err = Inr (fl', CREATE_ENTRY t d)"
  shows "\<exists>h p. flow_host fl' = Some h \<and> flow_port fl' = Some p
           \<and> d = [(''host'', PStr h), (''port'', PInt p),
                  (''password'', PStr (str_or_empty (flow_password fl')))]"
  using assms
  by (auto simp: async_step_authenticate_def Let_def authenticate_form_def try_login_def
        async_get_entry_def conf_defs opt_str_def opt_int_def
      split: option.splits sum.splits if_splits)

lemma authenticate_or_add_entry:
  assumes "async_authenticate_or_add cli fl ui = Inr (fl', CREATE_ENTRY t d)"
  shows "\<exists>h p. flow_host fl' = Some h \<and> flow_port fl' = Some p
           \<and> d = [(''host'', PStr h), (''port'', PInt p),
                  (''password'', PStr (str_or_empty (flow_password fl')))]"
  using assms
  by (auto simp: async_authenticate_or_add_def Let_def fetch_device_info_def user_form_def
        async_step_authenticate_def authenticate_form_def
        async_get_entry_def conf_defs opt_str_def opt_int_def set_name_def
      split: option.splits sum.splits if_splits prod.splits)

text \<open>
  C6. An entry created by the step "user", by the confirmation of a discovery or by the
  step "authenticate" has exactly the keys "host", "port" and "password", in this order;
  the host is a string, the port an int and the password a string, the empty one when
  the flow holds no password.
\<close>

theorem created_entry_fields:
  assumes "async_step_user cli fl ui = Inr (fl', CREATE_ENTRY t d)
           \<or> async_step_discovery_confirm cli fl uc = Inr (fl', CREATE_ENTRY t d)
           \<or> async_step_authenticate cli fl upw err = Inr (fl', CREATE_ENTRY t d)"
  shows "map fst d = [''host'', ''port'', ''password'']
         \<and> (\<exists>h p. map_of d ''host'' = Some (PStr h) \<and> map_of d ''port'' = Some (PInt p))
         \<and> map_of d ''password'' = Some (PStr (str_or_empty (flow_password fl')))
         \<and> (flow_password fl' = None \<longrightarrow> map_of d ''password'' = Some (PStr ''''))"
proof -
  have "\<exists>h p. flow_host fl' = Some h \<and> flow_port fl' = Some p
           \<and> d = [(''host'', PStr h), (''port'', PInt p),
                  (''password'', PStr (str_or_empty (flow_password fl')))]"
    using assms
  proof (elim disjE)
    assume "async_step_user cli fl ui = Inr (fl', CREATE_ENTRY t d)"
    then have "async_authenticate_or_add cli fl ui = Inr (fl', CREATE_ENTRY t d)"
      by (auto simp: async_step_user_def async_step_user_base_def user_form_def
            split: option.splits)
    then show ?thesis by (rule authenticate_or_add_entry)
  next
    assume "async_step_discovery_confirm cli fl uc = Inr (fl', CREATE_ENTRY t d)"
    then have "async_authenticate_or_add cli fl None = Inr (fl', CREATE_ENTRY t d)"
      by (auto simp: async_step_discovery_confirm_def discovery_confirm_form_def
            split: option.splits)
    then show ?thesis by (rule authenticate_or_add_entry)
  next
    assume "async_step_authenticate cli fl upw err = Inr (fl', CREATE_ENTRY t d)"
    then show ?thesis by (rule step_authenticate_entry)
  qed
  then obtain h p where d: "d = [(''host'', PStr h), (''port'', PInt p),
      (''password'', PStr (str_or_empty (flow_password fl')))]"
    by blast
  show ?thesis
    unfolding d by (auto simp: str_or_empty_def)
qed

theorem created_entry_fields_witness:
  "async_step_user example_device init_flow (Some (''kitchen.local'', 6053)) =
     Inr (\<lparr>flow_host = Some ''kitchen.local'', flow_port = Some 6053, flow_password = None,
            context_name = Some ''kitchen'',
            context_title_placeholders = [(''name'', Some ''kitchen'')],
            context_unique_id = None\<rparr>,
          CREATE_ENTRY ''kitchen''
            [(''host'', PStr ''kitchen.local''), (''port'', PInt 6053), (''password'', PStr '''')])
   \<and> map fst [(''host'', PStr ''kitchen.local''), (''port'', PInt 6053), (''password'', PStr '''')]
       = [''host'', ''port'', ''password'']
   \<and> map_of [(''host'', PStr ''kitchen.local''), (''port'', PInt 6053), (''password'', PStr '''')]
        ''password'' = Some (PStr '''')"
proof -
  have run: "async_step_user example_device init_flow (Some (''kitchen.local'', 6053)) =
     Inr (\<lparr>flow_host = Some ''kitchen.local'', flow_port = Some 6053, flow_password = None,
            context_name = Some ''kitchen'',
            context_title_placeholders = [(''name'', Some ''kitchen'')],
            context_unique_id = None\<rparr>,
          CREATE_ENTRY ''kitchen''
            [(''host'', PStr ''kitchen.local''), (''port'', PInt 6053), (''password'', PStr '''')])"
    by (simp add: async_step_user_def async_step_user_base_def async_authenticate_or_add_def
          set_user_input_def fetch_device_info_def example_device_def init_flow_def set_name_def
          async_get_entry_def conf_defs opt_str_def opt_int_def str_or_empty_def Let_def)
  from created_entry_fields [OF disjI1, OF run] run show ?thesis
    by simp
qed

section \<open>Zeroconf discovery\<close>

lemma address_property:
  "map_of (properties info) ''address'' = Some a \<Longrightarrow> address info = a"
  by (simp add: address_def)

lemma node_name_of_local:
  assumes "hostname info = nm @ ''.local.''"
  shows "node_name info = nm" and "local_name info = nm @ ''.local''"
  using assms by (simp_all add: node_name_def local_name_def py_drop_last_def)

lemma unique_id_loop_not_raised:
  "snd (abort_if_unique_id_loop uid upd es) = False \<Longrightarrow>
     fst (abort_if_unique_id_loop uid upd es) = es"
  by (induction es) (auto split: prod.splits if_splits)

lemma unique_id_loop_raised_iff:
  "snd (abort_if_unique_id_loop uid upd es) = (\<exists>e\<in>set es. unique_id e = Some uid)"
  by (induction es) (auto split: prod.splits if_splits)

lemma unique_id_loop_ids:
  "map entry_id (fst (abort_if_unique_id_loop uid upd es)) = map entry_id es"
  by (induction es) (auto split: prod.splits if_splits)

lemma unique_id_loop_first:
  assumes "\<forall>e\<in>set pre. unique_id e \<noteq> Some uid" and "unique_id entry = Some uid"
  shows "abort_if_unique_id_loop uid upd (pre @ entry # post) =
           (pre @ entry\<lparr>data := dict_merge (data entry) upd\<rparr> # post, True)"
  using assms by (induction pre) auto

lemma entries_loop_aborted_iff:
  "snd (current_entries_loop hs info a n es) = (\<exists>e\<in>set es. already_configured hs info a n e)"
  by (induction es) (auto split: prod.splits if_splits)

lemma entries_loop_ids:
  "map entry_id (fst (current_entries_loop hs info a n es)) = map entry_id es"
  by (induction es) (auto simp: async_update_entry_def split: prod.splits if_splits)

lemma entries_loop_first:
  assumes "\<forall>e\<in>set pre. \<not> already_configured hs info a n e"
    and "already_configured hs info a n entry"
  shows "current_entries_loop hs info a n (pre @ entry # post) =
           (pre @ (if no_unique_id entry
                   then async_update_entry entry
                          (AList.update CONF_HOST (PStr (host info)) (data entry)) n
                   else entry) # post, True)"
  using assms by (induction pre) auto

text \<open>The three outcomes of the step.\<close>

lemma zeroconf_unique_id_abort:
  assumes "\<exists>e\<in>set (config_entries hs). unique_id e = Some (node_name info)"
  shows "async_step_zeroconf hs fl info =
           (hs\<lparr>config_entries :=
                 fst (abort_if_unique_id_loop (node_name info) [(CONF_HOST, PStr (host info))]
                        (config_entries hs))\<rparr>,
            async_set_unique_id fl (node_name info), ABORT ''already_configured'')"
proof -
  let ?r = "abort_if_unique_id_loop (node_name info) [(CONF_HOST, PStr (host info))]
               (config_entries hs)"
  have "snd ?r"
    using assms by (simp add: unique_id_loop_raised_iff)
  then obtain es where r: "?r = (es, True)"
    by (cases ?r) auto
  have "abort_if_unique_id_configured hs (async_set_unique_id fl (node_name info))
          [(CONF_HOST, PStr (host info))] = (hs\<lparr>config_entries := es\<rparr>, True)"
    by (simp add: abort_if_unique_id_configured_def async_set_unique_id_def r)
  then show ?thesis
    by (simp add: async_step_zeroconf_def Let_def r)
qed

lemma zeroconf_no_unique_id:
  assumes "\<forall>e\<in>set (config_entries hs). unique_id e \<noteq> Some (node_name info)"
  shows "abort_if_unique_id_configured hs (async_set_unique_id fl (node_name info))
           [(CONF_HOST, PStr (host info))] = (hs, False)"
proof -
  let ?r = "abort_if_unique_id_loop (node_name info) [(CONF_HOST, PStr (host info))]
               (config_entries hs)"
  have s: "snd ?r = False"
    using assms by (simp add: unique_id_loop_raised_iff)
  then have "fst ?r = config_entries hs"
    by (rule unique_id_loop_not_raised)
  with s have "?r = (config_entries hs, False)"
    by (cases ?r) auto
  then show ?thesis
    by (simp add: abort_if_unique_id_configured_def async_set_unique_id_def)
qed

lemma zeroconf_entry_abort:
  assumes "\<forall>e\<in>set (config_entries hs). unique_id e \<noteq> Some (node_name info)"
    and "\<exists>e\<in>set (config_entries hs).
           already_configured hs info (address info) (node_name info) e"
  shows "async_step_zeroconf hs fl info =
           (hs\<lparr>config_entries :=
                 fst (current_entries_loop hs info (address info) (node_name info)
                        (config_entries hs))\<rparr>,
            async_set_unique_id fl (node_name info), ABORT ''already_configured'')"
proof -
  let ?r = "current_entries_loop hs info (address info) (node_name info) (config_entries hs)"
  have "snd ?r"
    using assms(2) by (simp add: entries_loop_aborted_iff)
  then obtain es where r: "?r = (es, True)"
    by (cases ?r) auto
  show ?thesis
    by (simp add: async_step_zeroconf_def Let_def zeroconf_no_unique_id [OF assms(1)] r)
qed

lemma zeroconf_confirm:
  assumes "\<forall>e\<in>set (config_entries hs). unique_id e \<noteq> Some (node_name info)"
    and "\<forall>e\<in>set (config_entries hs).
           \<not> already_configured hs info (address info) (node_name info) e"
  shows "async_step_zeroconf hs fl info =
           (hs,
            set_name (async_set_unique_id fl (node_name info)
                        \<lparr>flow_host := Some (host info), flow_port := Some (port info)\<rparr>)
              (node_name info),
            FORM ''discovery_confirm'' [] [] [(''name'', Some (node_name info))])"
proof -
  let ?r = "current_entries_loop hs info (address info) (node_name info) (config_entries hs)"
  have "\<not> snd ?r"
    using assms(2) by (simp add: entries_loop_aborted_iff)
  then obtain es where r: "?r = (es, False)"
    by (cases ?r) auto
  show ?thesis
    by (simp add: async_step_zeroconf_def Let_def zeroconf_no_unique_id [OF assms(1)] r
          discovery_confirm_form_def set_name_def)
qed

lemmas zeroconf_defs =
  async_step_zeroconf_def node_name_def local_name_def address_def py_drop_last_def
  async_set_unique_id_def abort_if_unique_id_configured_def already_configured_def
  is_entry_loaded_def get_entry_data_def no_unique_id_def async_update_entry_def
  dict_merge_def set_name_def discovery_confirm_form_def init_flow_def conf_defs Let_def

lemma match_already_configured:
  assumes "map_of (data entry) CONF_HOST = Some (PStr a)
           \<or> map_of (data entry) CONF_HOST = Some (PStr (host info))
           \<or> (is_entry_loaded hs entry
               \<and> (\<exists>dev. get_entry_data hs entry = Some dev \<and> name dev = n))"
  shows "already_configured hs info a n entry"
  using assms by (auto simp: already_configured_def split: option.splits)

text \<open>
  C2, as the code has it. For a hostname \<open>name.local.\<close> the node name is \<open>name\<close>, and it
  becomes the unique id of the flow. When no entry has that unique id and none is
  already configured for the device, the node name also becomes the name of the flow,
  its title placeholder and the name on the form of the step "discovery_confirm";
  otherwise the step aborts and leaves the name of the flow as it was.
\<close>

theorem zeroconf_node_name:
  assumes "hostname info = nm @ ''.local.''"
  shows "node_name info = nm
         \<and> context_unique_id (fst (snd (async_step_zeroconf hs fl info))) = Some nm
         \<and> (if \<exists>e\<in>set (config_entries hs).
                  unique_id e = Some nm \<or> already_configured hs info (address info) nm e
            then snd (snd (async_step_zeroconf hs fl info)) = ABORT ''already_configured''
                 \<and> context_name (fst (snd (async_step_zeroconf hs fl info))) = context_name fl
            else snd (snd (async_step_zeroconf hs fl info))
                   = FORM ''discovery_confirm'' [] [] [(''name'', Some nm)]
                 \<and> context_name (fst (snd (async_step_zeroconf hs fl info))) = Some nm
                 \<and> context_title_placeholders (fst (snd (async_step_zeroconf hs fl info)))
                     = [(''name'', Some nm)])"
proof -
  have n: "node_name info = nm"
    using assms by (rule node_name_of_local)
  consider
      (uid) "\<exists>e\<in>set (config_entries hs). unique_id e = Some (node_name info)"
    | (entry) "\<forall>e\<in>set (config_entries hs). unique_id e \<noteq> Some (node_name info)"
        "\<exists>e\<in>set (config_entries hs).
           already_configured hs info (address info) (node_name info) e"
    | (confirm) "\<forall>e\<in>set (config_entries hs). unique_id e \<noteq> Some (node_name info)"
        "\<forall>e\<in>set (config_entries hs).
           \<not> already_configured hs info (address info) (node_name info) e"
    by blast
  then show ?thesis
  proof cases
    case uid
    from uid have c: "\<exists>e\<in>set (config_entries hs).
        unique_id e = Some nm \<or> already_configured hs info (address info) nm e"
      unfolding n by blast
    show ?thesis
      using c n by (simp add: zeroconf_unique_id_abort [OF uid] async_set_unique_id_def)
  next
    case entry
    from entry(2) have c: "\<exists>e\<in>set (config_entries hs).
        unique_id e = Some nm \<or> already_configured hs info (address info) nm e"
      unfolding n by blast
    show ?thesis
      using c n by (simp add: zeroconf_entry_abort [OF entry] async_set_unique_id_def)
  next
    case confirm
    from confirm have c: "\<not> (\<exists>e\<in>set (config_entries hs).
        unique_id e = Some nm \<or> already_configured hs info (address info) nm e)"
      unfolding n by blast
    show ?thesis
      using c n
      by (simp add: zeroconf_confirm [OF confirm] async_set_unique_id_def set_name_def)
  qed
qed

theorem zeroconf_node_name_witness:
  "async_step_zeroconf \<lparr>config_entries = [], entry_datas = []\<rparr> init_flow
     \<lparr>hostname = ''livingroom.local.'', host = ''192.168.43.183'', port = 6053,
      properties = [(''address'', ''livingroom.local'')]\<rparr>
   = (\<lparr>config_entries = [], entry_datas = []\<rparr>,
      \<lparr>flow_host = Some ''192.168.43.183'', flow_port = Some 6053, flow_password = None,
        context_name = Some ''livingroom'',
        context_title_placeholders = [(''name'', Some ''livingroom'')],
        context_unique_id = Some ''livingroom''\<rparr>,
      FORM ''discovery_confirm'' [] [] [(''name'', Some ''livingroom'')])
   \<and> node_name \<lparr>hostname = ''livingroom.local.'', host = ''192.168.43.183'', port = 6053,
        properties = [(''address'', ''livingroom.local'')]\<rparr> = ''livingroom''"
proof -
  have run: "async_step_zeroconf \<lparr>config_entries = [], entry_datas = []\<rparr> init_flow
     \<lparr>hostname = ''livingroom.local.'', host = ''192.168.43.183'', port = 6053,
      properties = [(''address'', ''livingroom.local'')]\<rparr>
   = (\<lparr>config_entries = [], entry_datas = []\<rparr>,
      \<lparr>flow_host = Some ''192.168.43.183'', flow_port = Some 6053, flow_password = None,
        context_name = Some ''livingroom'',
        context_title_placeholders = [(''name'', Some ''livingroom'')],
        context_unique_id = Some ''livingroom''\<rparr>,
      FORM ''discovery_confirm'' [] [] [(''name'', Some ''livingroom'')])"
    by (simp add: zeroconf_defs)
  have form: "hostname \<lparr>hostname = ''livingroom.local.'', host = ''192.168.43.183'', port = 6053,
      properties = [(''address'', ''livingroom.local'')]\<rparr> = ''livingroom'' @ ''.local.''"
    by simp
  from zeroconf_node_name [OF form, of "\<lparr>config_entries = [], entry_datas = []\<rparr>" init_flow] run
  show ?thesis by simp
qed

text \<open>
  C2 as stated fails where the discovery aborts: the host of the entry is the discovered
  host, the step returns before it sets the name, and the name of the flow is not
  "livingroom".
\<close>

theorem zeroconf_display_name_counterexample:
  "snd (snd (async_step_zeroconf
       \<lparr>config_entries =
          [\<lparr>entry_id = ''1'', unique_id = None,
            data = [(''host'', PStr ''192.168.43.183''), (''port'', PInt 6053),
                    (''password'', PStr '''')]\<rparr>],
        entry_datas = []\<rparr>
       init_flow
       \<lparr>hostname = ''livingroom.local.'', host = ''192.168.43.183'', port = 6053,
        properties = [(''address'', ''livingroom.local'')]\<rparr>))
     = ABORT ''already_configured''
   \<and> context_name (fst (snd (async_step_zeroconf
       \<lparr>config_entries =
          [\<lparr>entry_id = ''1'', unique_id = None,
            data = [(''host'', PStr ''192.168.43.183''), (''port'', PInt 6053),
                    (''password'', PStr '''')]\<rparr>],
        entry_datas = []\<rparr>
       init_flow
       \<lparr>hostname = ''livingroom.local.'', host = ''192.168.43.183'', port = 6053,
        properties = [(''address'', ''livingroom.local'')]\<rparr>)))
     \<noteq> Some ''livingroom''"
  by (simp add: zeroconf_defs)

text \<open>
  C3. When the host of some entry is the address of the discovery (its property
  "address", or the local name when the property is absent) or its raw host, or when
  some loaded entry has device info with the node name, the step aborts with
  "already_configured", and the entries afterwards are the entries before, by entry id:
  none is created.
\<close>

theorem zeroconf_already_configured_aborts:
  assumes "entry \<in> set (config_entries hs)"
    and "map_of (data entry) CONF_HOST = Some (PStr (address info))
         \<or> map_of (data entry) CONF_HOST = Some (PStr (host info))
         \<or> (is_entry_loaded hs entry
             \<and> (\<exists>dev. get_entry_data hs entry = Some dev \<and> name dev = node_name info))"
  shows "snd (snd (async_step_zeroconf hs fl info)) = ABORT ''already_configured''
         \<and> map entry_id (config_entries (fst (async_step_zeroconf hs fl info)))
             = map entry_id (config_entries hs)"
proof (cases "\<exists>e\<in>set (config_entries hs). unique_id e = Some (node_name info)")
  case True
  show ?thesis
    by (simp add: zeroconf_unique_id_abort [OF True] unique_id_loop_ids)
next
  case False
  then have no: "\<forall>e\<in>set (config_entries hs). unique_id e \<noteq> Some (node_name info)"
    by blast
  have "already_configured hs info (address info) (node_name info) entry"
    using assms(2) by (rule match_already_configured)
  with assms(1)
  have ex: "\<exists>e\<in>set (config_entries hs).
              already_configured hs info (address info) (node_name info) e"
    by blast
  show ?thesis
    by (simp add: zeroconf_entry_abort [OF no ex] entries_loop_ids)
qed

theorem zeroconf_already_configured_witness:
  "snd (snd (async_step_zeroconf
       \<lparr>config_entries =
          [\<lparr>entry_id = ''1'', unique_id = None,
            data = [(''host'', PStr ''livingroom.local''), (''port'', PInt 6053),
                    (''password'', PStr '''')]\<rparr>],
        entry_datas = []\<rparr>
       init_flow
       \<lparr>hostname = ''livingroom.local.'', host = ''192.168.43.183'', port = 6053,
        properties = [(''address'', ''livingroom.local'')]\<rparr>))
     = ABORT ''already_configured''
   \<and> map entry_id (config_entries (fst (async_step_zeroconf
       \<lparr>config_entries =
          [\<lparr>entry_id = ''1'', unique_id = None,
            data = [(''host'', PStr ''livingroom.local''), (''port'', PInt 6053),
                    (''password'', PStr '''')]\<rparr>],
        entry_datas = []\<rparr>
       init_flow
       \<lparr>hostname = ''livingroom.local.'', host = ''192.168.43.183'', port = 6053,
        properties = [(''address'', ''livingroom.local'')]\<rparr>))) = [''1'']"
  using zeroconf_already_configured_aborts
     [of "\<lparr>entry_id = ''1'', unique_id = None,
            data = [(''host'', PStr ''livingroom.local''), (''port'', PInt 6053),
                    (''password'', PStr '''')]\<rparr>"
         "\<lparr>config_entries =
          [\<lparr>entry_id = ''1'', unique_id = None,
            data = [(''host'', PStr ''livingroom.local''), (''port'', PInt 6053),
                    (''password'', PStr '''')]\<rparr>],
        entry_datas = []\<rparr>"
         "\<lparr>hostname = ''livingroom.local.'', host = ''192.168.43.183'', port = 6053,
        properties = [(''address'', ''livingroom.local'')]\<rparr>" init_flow]
  by (simp add: address_def conf_defs)

text \<open>
  C8, as the code has it. When no entry has the node name as its unique id, the step
  aborts at the first entry, in iteration order, that is already configured for the
  device. If that entry has no unique id, its unique id becomes the node name and its
  host the discovered host; if it has one, it stays as it is. Every other entry stays as
  it is.
\<close>

theorem zeroconf_backfill_first_match:
  assumes "\<forall>e\<in>set (config_entries hs). unique_id e \<noteq> Some (node_name info)"
    and "config_entries hs = pre @ entry # post"
    and "\<forall>e\<in>set pre. \<not> already_configured hs info (address info) (node_name info) e"
    and "already_configured hs info (address info) (node_name info) entry"
  shows "async_step_zeroconf hs fl info =
           (hs\<lparr>config_entries :=
                 pre @ (if no_unique_id entry
                        then entry\<lparr>data := AList.update CONF_HOST (PStr (host info)) (data entry),
                                   unique_id := Some (node_name info)\<rparr>
                        else entry) # post\<rparr>,
            async_set_unique_id fl (node_name info), ABORT ''already_configured'')
         \<and> map_of (AList.update CONF_HOST (PStr (host info)) (data entry)) CONF_HOST
             = Some (PStr (host info))"
proof -
  have ex: "\<exists>e\<in>set (config_entries hs).
              already_configured hs info (address info) (node_name info) e"
    using assms(2,4) by auto
  have loop: "current_entries_loop hs info (address info) (node_name info) (config_entries hs) =
           (pre @ (if no_unique_id entry
                   then async_update_entry entry
                          (AList.update CONF_HOST (PStr (host info)) (data entry)) (node_name info)
                   else entry) # post, True)"
    unfolding assms(2) using assms(3,4) by (rule entries_loop_first)
  show ?thesis
    by (simp add: zeroconf_entry_abort [OF assms(1) ex] loop async_update_entry_def
          AList.update_conv')
qed

theorem zeroconf_backfill_first_match_witness:
  "async_step_zeroconf
     \<lparr>config_entries =
        [\<lparr>entry_id = ''0'', unique_id = Some ''kitchen'', data = [(''host'', PStr ''10.0.0.7'')]\<rparr>,
         \<lparr>entry_id = ''1'', unique_id = None, data = [(''host'', PStr ''livingroom.local'')]\<rparr>],
      entry_datas = []\<rparr>
     init_flow
     \<lparr>hostname = ''livingroom.local.'', host = ''192.168.43.183'', port = 6053,
      properties = [(''address'', ''livingroom.local'')]\<rparr>
   = (\<lparr>config_entries =
        [\<lparr>entry_id = ''0'', unique_id = Some ''kitchen'', data = [(''host'', PStr ''10.0.0.7'')]\<rparr>,
         \<lparr>entry_id = ''1'', unique_id = Some ''livingroom'',
          data = [(''host'', PStr ''192.168.43.183'')]\<rparr>],
      entry_datas = []\<rparr>,
      \<lparr>flow_host = None, flow_port = None, flow_password = None, context_name = None,
        context_title_placeholders = [], context_unique_id = Some ''livingroom''\<rparr>,
      ABORT ''already_configured'')"
  using zeroconf_backfill_first_match
     [of "\<lparr>config_entries =
        [\<lparr>entry_id = ''0'', unique_id = Some ''kitchen'', data = [(''host'', PStr ''10.0.0.7'')]\<rparr>,
         \<lparr>entry_id = ''1'', unique_id = None, data = [(''host'', PStr ''livingroom.local'')]\<rparr>],
      entry_datas = []\<rparr>"
      "\<lparr>hostname = ''livingroom.local.'', host = ''192.168.43.183'', port = 6053,
      properties = [(''address'', ''livingroom.local'')]\<rparr>"
      "[\<lparr>entry_id = ''0'', unique_id = Some ''kitchen'', data = [(''host'', PStr ''10.0.0.7'')]\<rparr>]"
      "\<lparr>entry_id = ''1'', unique_id = None, data = [(''host'', PStr ''livingroom.local'')]\<rparr>"
      "[]" init_flow]
  by (simp add: zeroconf_defs)

text \<open>
  C8 as stated fails for a second matching entry: both entries lack a unique id, the
  first matches by the raw host and the second by the address, and the step returns at
  the first, so the second keeps no unique id and its old host.
\<close>

theorem zeroconf_backfill_counterexample:
  "already_configured
     \<lparr>config_entries =
        [\<lparr>entry_id = ''1'', unique_id = None, data = [(''host'', PStr ''192.168.43.183'')]\<rparr>,
         \<lparr>entry_id = ''2'', unique_id = None, data = [(''host'', PStr ''livingroom.local'')]\<rparr>],
      entry_datas = []\<rparr>
     \<lparr>hostname = ''livingroom.local.'', host = ''192.168.43.183'', port = 6053,
      properties = [(''address'', ''livingroom.local'')]\<rparr>
     ''livingroom.local'' ''livingroom''
     \<lparr>entry_id = ''2'', unique_id = None, data = [(''host'', PStr ''livingroom.local'')]\<rparr>
   \<and> no_unique_id
       \<lparr>entry_id = ''2'', unique_id = None, data = [(''host'', PStr ''livingroom.local'')]\<rparr>
   \<and> async_step_zeroconf
     \<lparr>config_entries =
        [\<lparr>entry_id = ''1'', unique_id = None, data = [(''host'', PStr ''192.168.43.183'')]\<rparr>,
         \<lparr>entry_id = ''2'', unique_id = None, data = [(''host'', PStr ''livingroom.local'')]\<rparr>],
      entry_datas = []\<rparr>
     init_flow
     \<lparr>hostname = ''livingroom.local.'', host = ''192.168.43.183'', port = 6053,
      properties = [(''address'', ''livingroom.local'')]\<rparr>
   = (\<lparr>config_entries =
        [\<lparr>entry_id = ''1'', unique_id = Some ''livingroom'',
          data = [(''host'', PStr ''192.168.43.183'')]\<rparr>,
         \<lparr>entry_id = ''2'', unique_id = None, data = [(''host'', PStr ''livingroom.local'')]\<rparr>],
      entry_datas = []\<rparr>,
      \<lparr>flow_host = None, flow_port = None, flow_password = None, context_name = None,
        context_title_placeholders = [], context_unique_id = Some ''livingroom''\<rparr>,
      ABORT ''already_configured'')"
  by (simp add: zeroconf_defs)

text \<open>
  C9. When an entry has the node name as its unique id, the step aborts with
  "already_configured" at the first such entry, and the host of that entry is then the
  discovered host; the other entries stay as they are.
\<close>

theorem zeroconf_unique_id_abort_updates_host:
  assumes "config_entries hs = pre @ entry # post"
    and "\<forall>e\<in>set pre. unique_id e \<noteq> Some (node_name info)"
    and "unique_id entry = Some (node_name info)"
  shows "async_step_zeroconf hs fl info =
           (hs\<lparr>config_entries :=
                 pre @ entry\<lparr>data := AList.update CONF_HOST (PStr (host info)) (data entry)\<rparr>
                   # post\<rparr>,
            async_set_unique_id fl (node_name info), ABORT ''already_configured'')
         \<and> map_of (AList.update CONF_HOST (PStr (host info)) (data entry)) CONF_HOST
             = Some (PStr (host info))"
proof -
  have ex: "\<exists>e\<in>set (config_entries hs). unique_id e = Some (node_name info)"
    using assms(1,3) by auto
  have loop: "abort_if_unique_id_loop (node_name info) [(CONF_HOST, PStr (host info))]
                (config_entries hs) =
              (pre @ entry\<lparr>data := dict_merge (data entry) [(CONF_HOST, PStr (host info))]\<rparr>
                 # post, True)"
    unfolding assms(1) using assms(2,3) by (rule unique_id_loop_first)
  show ?thesis
    by (simp add: zeroconf_unique_id_abort [OF ex] loop dict_merge_def AList.update_conv')
qed

theorem zeroconf_unique_id_abort_updates_host_witness:
  "async_step_zeroconf
     \<lparr>config_entries =
        [\<lparr>entry_id = ''1'', unique_id = Some ''livingroom'',
          data = [(''host'', PStr ''192.168.43.100''), (''port'', PInt 6053)]\<rparr>],
      entry_datas = []\<rparr>
     init_flow
     \<lparr>hostname = ''livingroom.local.'', host = ''192.168.43.183'', port = 6053,
      properties = [(''address'', ''livingroom.local'')]\<rparr>
   = (\<lparr>config_entries =
        [\<lparr>entry_id = ''1'', unique_id = Some ''livingroom'',
          data = [(''host'', PStr ''192.168.43.183''), (''port'', PInt 6053)]\<rparr>],
      entry_datas = []\<rparr>,
      \<lparr>flow_host = None, flow_port = None, flow_password = None, context_name = None,
        context_title_placeholders = [], context_unique_id = Some ''livingroom''\<rparr>,
      ABORT ''already_configured'')"
  using zeroconf_unique_id_abort_updates_host
     [of "\<lparr>config_entries =
        [\<lparr>entry_id = ''1'', unique_id = Some ''livingroom'',
          data = [(''host'', PStr ''192.168.43.100''), (''port'', PInt 6053)]\<rparr>],
      entry_datas = []\<rparr>" "[]"
      "\<lparr>entry_id = ''1'', unique_id = Some ''livingroom'',
          data = [(''host'', PStr ''192.168.43.100''), (''port'', PInt 6053)]\<rparr>" "[]"
      "\<lparr>hostname = ''livingroom.local.'', host = ''192.168.43.183'', port = 6053,
      properties = [(''address'', ''livingroom.local'')]\<rparr>" init_flow]
  by (simp add: zeroconf_defs)

end
